theory Spec2Isabelle
  imports Complex_Main
begin

section \<open>Outcomes of a call\<close>

text \<open>
  A call of the engine returns, raises a Python exception, or never returns
  (the padding loop of \<open>reshape_gradient\<close> has no exit when the target has a
  higher rank than the gradient).
\<close>

datatype error =
  AssertionError | ValueError | IndexError | AxisError | TypeError
  | AttributeError | RecursionError | ZeroDivisionError

datatype 'a result = Returns 'a | Raises error | Diverges

fun bind :: "'a result \<Rightarrow> ('a \<Rightarrow> 'b result) \<Rightarrow> 'b result" where
  "bind (Returns x) f = f x"
| "bind (Raises e) f = Raises e"
| "bind Diverges f = Diverges"

section \<open>Dense arrays\<close>

text \<open>
  A numpy array is its shape and its elements in row-major order. Elements are
  real numbers: arrays are arrays of floats, and rounding, infinities and NaN of
  the floating-point kernels are outside this model (as are the casting rules of
  integer arrays).
\<close>

record ndarray =
  shape :: "nat list"
  elems :: "real list"

fun indices :: "nat list \<Rightarrow> nat list list" where
  "indices [] = [[]]"
| "indices (n # ns) = concat (map (\<lambda>i. map ((#) i) (indices ns)) [0..<n])"

definition ravel :: "nat list \<Rightarrow> nat list \<Rightarrow> nat" where
  "ravel sh idx = foldl (\<lambda>acc (n, i). acc * n + i) 0 (zip sh idx)"

definition get :: "ndarray \<Rightarrow> nat list \<Rightarrow> real" where
  "get a idx = elems a ! ravel (shape a) idx"

definition tabulate :: "nat list \<Rightarrow> (nat list \<Rightarrow> real) \<Rightarrow> ndarray" where
  "tabulate sh f = \<lparr>shape = sh, elems = map f (indices sh)\<rparr>"

definition np_zeros :: "nat list \<Rightarrow> ndarray" where
  "np_zeros sh = tabulate sh (\<lambda>_. 0)"

definition np_ones :: "nat list \<Rightarrow> ndarray" where
  "np_ones sh = tabulate sh (\<lambda>_. 1)"

definition scalar :: "real \<Rightarrow> ndarray" where
  "scalar x = \<lparr>shape = [], elems = [x]\<rparr>"

subsection \<open>Broadcasting\<close>

fun bc_rev :: "nat list \<Rightarrow> nat list \<Rightarrow> nat list option" where
  "bc_rev [] ys = Some ys"
| "bc_rev xs [] = Some xs"
| "bc_rev (x # xs) (y # ys) =
     (if x = y \<or> y = 1 then map_option ((#) x) (bc_rev xs ys)
      else if x = 1 then map_option ((#) y) (bc_rev xs ys)
      else None)"

definition broadcast_shapes :: "nat list \<Rightarrow> nat list \<Rightarrow> nat list option" where
  "broadcast_shapes s t = map_option rev (bc_rev (rev s) (rev t))"

definition bidx :: "nat list \<Rightarrow> nat list \<Rightarrow> nat list" where
  "bidx sh idx =
     map2 (\<lambda>n i. if n = 1 then 0 else i) sh (drop (length idx - length sh) idx)"

definition broadcast_to :: "ndarray \<Rightarrow> nat list \<Rightarrow> ndarray" where
  "broadcast_to a sh = tabulate sh (\<lambda>idx. get a (bidx (shape a) idx))"

definition np_binop ::
  "(real \<Rightarrow> real \<Rightarrow> real) \<Rightarrow> ndarray \<Rightarrow> ndarray \<Rightarrow> ndarray result" where
  "np_binop f a b =
     (case broadcast_shapes (shape a) (shape b) of
        None \<Rightarrow> Raises ValueError
      | Some sh \<Rightarrow>
          Returns \<lparr>shape = sh,
                   elems = map2 f (elems (broadcast_to a sh)) (elems (broadcast_to b sh))\<rparr>)"

definition np_map :: "(real \<Rightarrow> real) \<Rightarrow> ndarray \<Rightarrow> ndarray" where
  "np_map f a = \<lparr>shape = shape a, elems = map f (elems a)\<rparr>"

text \<open>
  \<open>a += b\<close> on an array \<open>a\<close>: \<open>b\<close> is broadcast to the shape of \<open>a\<close>; numpy
  raises ValueError when the broadcast shape is not the shape of \<open>a\<close>.
\<close>

definition np_iadd :: "ndarray \<Rightarrow> ndarray \<Rightarrow> ndarray result" where
  "np_iadd a b =
     (if broadcast_shapes (shape a) (shape b) = Some (shape a)
      then Returns \<lparr>shape = shape a,
                    elems = map2 (+) (elems a) (elems (broadcast_to b (shape a)))\<rparr>
      else Raises ValueError)"

definition np_isub :: "ndarray \<Rightarrow> ndarray \<Rightarrow> ndarray result" where
  "np_isub a b =
     (if broadcast_shapes (shape a) (shape b) = Some (shape a)
      then Returns \<lparr>shape = shape a,
                    elems = map2 (-) (elems a) (elems (broadcast_to b (shape a)))\<rparr>
      else Raises ValueError)"

subsection \<open>Reductions\<close>

datatype axis_arg = AxisNone | AxisInt int | AxisTuple "int list"

definition normalize_axis :: "nat \<Rightarrow> int \<Rightarrow> nat result" where
  "normalize_axis rank ax =
     (if - int rank \<le> ax \<and> ax < int rank
      then Returns (nat (if ax < 0 then ax + int rank else ax))
      else Raises AxisError)"

fun normalize_axes :: "nat \<Rightarrow> int list \<Rightarrow> nat list result" where
  "normalize_axes rank [] = Returns []"
| "normalize_axes rank (ax # axs) =
     bind (normalize_axis rank ax) (\<lambda>k.
     bind (normalize_axes rank axs) (\<lambda>ks.
       if k \<in> set ks then Raises ValueError else Returns (k # ks)))"

definition reduced_axes :: "nat \<Rightarrow> axis_arg \<Rightarrow> nat list result" where
  "reduced_axes rank ax =
     (case ax of
        AxisNone \<Rightarrow> Returns [0..<rank]
      | AxisInt k \<Rightarrow> normalize_axes rank [k]
      | AxisTuple ks \<Rightarrow> normalize_axes rank ks)"

definition kept :: "nat list \<Rightarrow> 'a list \<Rightarrow> 'a list" where
  "kept axes xs = map snd (filter (\<lambda>(k, x). k \<notin> set axes) (zip [0..<length xs] xs))"

definition reduced_shape :: "nat list \<Rightarrow> bool \<Rightarrow> nat list \<Rightarrow> nat list" where
  "reduced_shape axes keepdims sh =
     (if keepdims then map (\<lambda>(k, n). if k \<in> set axes then 1 else n) (zip [0..<length sh] sh)
      else kept axes sh)"

definition project :: "nat list \<Rightarrow> bool \<Rightarrow> nat list \<Rightarrow> nat list" where
  "project axes keepdims idx =
     (if keepdims then map (\<lambda>(k, i). if k \<in> set axes then 0 else i) (zip [0..<length idx] idx)
      else kept axes idx)"

definition np_sum :: "ndarray \<Rightarrow> axis_arg \<Rightarrow> bool \<Rightarrow> ndarray result" where
  "np_sum a ax keepdims =
     bind (reduced_axes (length (shape a)) ax) (\<lambda>axes.
       Returns (tabulate (reduced_shape axes keepdims (shape a))
         (\<lambda>oidx. sum_list (map (get a)
            (filter (\<lambda>idx. project axes keepdims idx = oidx) (indices (shape a)))))))"

section \<open>reshape\_gradient\<close>

text \<open>
  The loop \<open>while len(target_shape) != len(gradient.shape)\<close> prepends a 1 to the
  target shape and clears \<open>keepdims\<close>. It never exits when the target is longer
  than the gradient's shape, so it is a partial function: \<open>None\<close> is not returning.
\<close>

partial_function (option) pad_target :: "nat \<Rightarrow> nat list \<Rightarrow> bool \<Rightarrow> (nat list \<times> bool) option" where
  "pad_target rank target_shape keepdims =
     (if length target_shape \<noteq> rank then pad_target rank (1 # target_shape) False
      else Some (target_shape, keepdims))"

definition broadcast_axes :: "nat list \<Rightarrow> nat list \<Rightarrow> nat list" where
  "broadcast_axes grad_shape target_shape =
     map fst (filter (\<lambda>(i, grad_axis, tar_axis). tar_axis = 1 \<and> grad_axis \<noteq> 1)
       (zip [0..<min (length grad_shape) (length target_shape)] (zip grad_shape target_shape)))"

definition reshape_gradient :: "ndarray \<Rightarrow> nat list \<Rightarrow> ndarray result" where
  "reshape_gradient gradient target_shape =
     (if shape gradient = target_shape then Returns gradient
      else if target_shape = [] then np_sum gradient AxisNone False
      else
        (case pad_target (length (shape gradient)) target_shape True of
           None \<Rightarrow> Diverges
         | Some (padded, keepdims) \<Rightarrow>
             np_sum gradient
               (AxisTuple (map int (broadcast_axes (shape gradient) padded))) keepdims))"

section \<open>Further kernels\<close>

text \<open>
  \<open>a[i]\<close> with an integer: the sub-array at position \<open>i\<close> of the first axis.
\<close>

definition np_index0 :: "ndarray \<Rightarrow> nat \<Rightarrow> ndarray result" where
  "np_index0 a i =
     (case shape a of
        [] \<Rightarrow> Raises IndexError
      | n # sh \<Rightarrow>
          if i < n
          then Returns \<lparr>shape = sh,
                        elems = take (prod_list sh) (drop (i * prod_list sh) (elems a))\<rparr>
          else Raises IndexError)"

definition np_transpose :: "ndarray \<Rightarrow> ndarray" where
  "np_transpose a = tabulate (rev (shape a)) (\<lambda>idx. get a (rev idx))"

text \<open>
  \<open>np.stack((a, b), axis)\<close>: both shapes must agree, the axis is normalised over
  the rank of the result.
\<close>

definition np_stack :: "ndarray \<Rightarrow> ndarray \<Rightarrow> int \<Rightarrow> ndarray result" where
  "np_stack a b axis =
     (if shape a \<noteq> shape b then Raises ValueError
      else bind (normalize_axis (Suc (length (shape a))) axis) (\<lambda>ax.
        Returns (tabulate (take ax (shape a) @ [2] @ drop ax (shape a))
          (\<lambda>idx. get (if idx ! ax = 0 then a else b) (take ax idx @ drop (Suc ax) idx)))))"

text \<open>
  \<open>np.matmul\<close>: no scalar operands; a vector is made a row (left) or a column
  (right) for the product and the added axis is removed again; the inner sizes must
  agree; the leading (batch) axes broadcast.
\<close>

definition np_matmul :: "ndarray \<Rightarrow> ndarray \<Rightarrow> ndarray result" where
  "np_matmul a b =
     (if shape a = [] \<or> shape b = [] then Raises ValueError
      else
        let sa = (if length (shape a) = 1 then 1 # shape a else shape a);
            sb = (if length (shape b) = 1 then shape b @ [1] else shape b);
            m = last (butlast sa); n = last sa;
            n' = last (butlast sb); p = last sb;
            ba = butlast (butlast sa); bb = butlast (butlast sb)
        in if n \<noteq> n' then Raises ValueError
           else
             (case broadcast_shapes ba bb of
                None \<Rightarrow> Raises ValueError
              | Some batch \<Rightarrow>
                  Returns
                    \<lparr>shape = batch @ (if length (shape a) = 1 then [] else [m])
                                   @ (if length (shape b) = 1 then [] else [p]),
                     elems = map (\<lambda>idx.
                         let bi = take (length batch) idx;
                             i = idx ! length batch;
                             j = idx ! Suc (length batch)
                         in sum_list (map (\<lambda>k.
                              elems a ! ravel sa (bidx ba bi @ [i, k])
                              * elems b ! ravel sb (bidx bb bi @ [k, j])) [0..<n]))
                       (indices (batch @ [m, p]))\<rparr>))"

text \<open>
  \<open>np.max(a, axis=1, keepdims=True)\<close>: the maximum has no identity, so a reduced
  axis of length 0 raises ValueError.
\<close>

definition np_max_axis1_keepdims :: "ndarray \<Rightarrow> ndarray result" where
  "np_max_axis1_keepdims a =
     (if length (shape a) < 2 then Raises AxisError
      else if shape a ! 1 = 0 then Raises ValueError
      else Returns (tabulate (reduced_shape [1] True (shape a))
        (\<lambda>oidx. foldr max (map (get a)
            (filter (\<lambda>idx. project [1] True idx = oidx) (indices (shape a))))
            (get a oidx))))"

section \<open>Python values the operators receive\<close>

text \<open>
  The operand of an operator is a plain number (\<open>int\<close>, \<open>float\<close>, \<open>bool\<close>), a numpy
  array of floats or of integers, or a Tensor (a reference into the heap below).
\<close>

datatype number = PyInt int | PyFloat real | PyBool bool

datatype pyobj =
  Num number
  | Array ndarray
  | IntArray "nat list" "int list"
  | TensorRef nat

fun num_real :: "number \<Rightarrow> real" where
  "num_real (PyInt n) = of_int n"
| "num_real (PyFloat r) = r"
| "num_real (PyBool b) = of_bool b"

text \<open>
  \<open>x ** e\<close> on floats, for a number \<open>e\<close>. A float exponent that is no whole number
  uses \<open>powr\<close>, which is numpy's value on positive bases only.
\<close>

fun float_power :: "real \<Rightarrow> number \<Rightarrow> real" where
  "float_power x (PyInt n) = x powi n"
| "float_power x (PyBool b) = x powi (of_bool b)"
| "float_power x (PyFloat r) = (if r \<in> \<int> then x powi \<lfloor>r\<rfloor> else x powr r)"

fun minus_one :: "number \<Rightarrow> number" where
  "minus_one (PyInt n) = PyInt (n - 1)"
| "minus_one (PyFloat r) = PyFloat (r - 1)"
| "minus_one (PyBool b) = PyInt (of_bool b - 1)"

fun negate :: "number \<Rightarrow> number" where
  "negate (PyInt n) = PyInt (- n)"
| "negate (PyFloat r) = PyFloat (- r)"
| "negate (PyBool b) = PyInt (- of_bool b)"

text \<open>\<open>np.array(other)\<close> for an operand that is not a Tensor.\<close>

fun np_array :: "pyobj \<Rightarrow> ndarray" where
  "np_array (Num c) = scalar (num_real c)"
| "np_array (Array a) = a"
| "np_array (IntArray sh xs) = \<lparr>shape = sh, elems = map of_int xs\<rparr>"
| "np_array (TensorRef t) = scalar 0"

section \<open>Tensors\<close>

text \<open>
  Tensors are objects with identity: the heap is the list of all Tensors
  constructed so far and a reference is a position in it. The backward closure of
  a node is the operation that made it, with the references and values it captured.
  \<open>prev\<close> is the set \<open>_prev\<close>, kept as a list without duplicates in the order of the
  parent tuple (Python leaves the iteration order of a set open).
\<close>

datatype closure =
  back_none
  | add_backward nat nat nat
  | mul_backward nat nat nat
  | matmul_backward nat nat nat
  | pow_backward nat number nat
  | sin_backward nat nat
  | cos_backward nat nat
  | exp_backward nat nat
  | log_backward nat nat
  | sum_backward nat nat
  | stack_backward nat nat nat
  | T_backward nat nat
  | relu_backward nat nat
  | sigmoid_backward nat nat
  | tanh_backward nat nat
  | cross_entropy_backward nat ndarray ndarray nat
  | regularization_backward nat real nat

text \<open>
  The gradient attribute holds an array, or the Python integer that \<open>zero_grad\<close>
  assigns.
\<close>

datatype gradval = GradArray ndarray | GradInt int

datatype op_tag = Tag string | PowTag number

record tensor =
  data :: ndarray
  label :: string
  grad :: gradval
  req_grad :: bool
  is_weight :: bool
  grad_divisor :: "unit option"
  backward_closure :: closure
  prev :: "nat list"
  op :: op_tag

type_synonym heap = "tensor list"

definition Tensor ::
  "heap \<Rightarrow> ndarray \<Rightarrow> nat list \<Rightarrow> op_tag \<Rightarrow> string \<Rightarrow> bool \<Rightarrow> bool \<Rightarrow> heap \<times> nat" where
  "Tensor s d parent tag lbl rg w =
     (s @ [\<lparr>data = d, label = lbl, grad = GradArray (np_zeros (shape d)),
            req_grad = rg, is_weight = w, grad_divisor = None,
            backward_closure = back_none, prev = remdups parent, op = tag\<rparr>],
      length s)"

text \<open>\<open>other if isinstance(other, Tensor) else Tensor(other)\<close>\<close>

fun promote :: "heap \<Rightarrow> pyobj \<Rightarrow> heap \<times> nat" where
  "promote s (TensorRef t) = (s, t)"
| "promote s other = Tensor s (np_array other) [] (Tag []) [] False False"

definition set_backward :: "heap \<Rightarrow> nat \<Rightarrow> closure \<Rightarrow> heap" where
  "set_backward s out c = s[out := (s ! out)\<lparr>backward_closure := c\<rparr>]"

definition new_node ::
  "heap \<Rightarrow> ndarray \<Rightarrow> nat list \<Rightarrow> op_tag \<Rightarrow> (nat \<Rightarrow> closure) \<Rightarrow> heap \<times> nat" where
  "new_node s v parent tag c =
     (let (s', out) = Tensor s v parent tag [] False False
      in (set_backward s' out (c out), out))"

subsection \<open>Reading and accumulating gradients\<close>

text \<open>
  Inside a numpy expression a Python integer behaves as a 0-d array;
  \<open>reshape_gradient\<close> reads \<open>.shape\<close>, which an integer does not have.
\<close>

fun grad_array :: "gradval \<Rightarrow> ndarray" where
  "grad_array (GradArray g) = g"
| "grad_array (GradInt n) = scalar (of_int n)"

fun reshape_grad :: "gradval \<Rightarrow> nat list \<Rightarrow> ndarray result" where
  "reshape_grad (GradArray g) sh = reshape_gradient g sh"
| "reshape_grad (GradInt n) sh = Raises AttributeError"

text \<open>
  \<open>t.grad += c\<close>: in place on an array; on an integer Python evaluates
  \<open>t.grad + c\<close> and rebinds the attribute.
\<close>

fun iadd_grad :: "gradval \<Rightarrow> gradval \<Rightarrow> gradval result" where
  "iadd_grad (GradArray g) c = bind (np_iadd g (grad_array c)) (\<lambda>g'. Returns (GradArray g'))"
| "iadd_grad (GradInt n) (GradInt m) = Returns (GradInt (n + m))"
| "iadd_grad (GradInt n) (GradArray c) = Returns (GradArray (np_map (\<lambda>x. of_int n + x) c))"

fun isub_grad :: "gradval \<Rightarrow> gradval \<Rightarrow> gradval result" where
  "isub_grad (GradArray g) c = bind (np_isub g (grad_array c)) (\<lambda>g'. Returns (GradArray g'))"
| "isub_grad (GradInt n) (GradInt m) = Returns (GradInt (n - m))"
| "isub_grad (GradInt n) (GradArray c) = Returns (GradArray (np_map (\<lambda>x. of_int n - x) c))"

definition add_grad :: "heap \<Rightarrow> nat \<Rightarrow> gradval \<Rightarrow> heap result" where
  "add_grad s t c =
     bind (iadd_grad (grad (s ! t)) c) (\<lambda>g. Returns (s[t := (s ! t)\<lparr>grad := g\<rparr>]))"

definition sub_grad :: "heap \<Rightarrow> nat \<Rightarrow> gradval \<Rightarrow> heap result" where
  "sub_grad s t c =
     bind (isub_grad (grad (s ! t)) c) (\<lambda>g. Returns (s[t := (s ! t)\<lparr>grad := g\<rparr>]))"

text \<open>\<open>self.grad += local * out.grad\<close>, the shape of most unary rules.\<close>

definition add_scaled :: "heap \<Rightarrow> nat \<Rightarrow> ndarray \<Rightarrow> nat \<Rightarrow> heap result" where
  "add_scaled s self local out =
     bind (np_binop (*) local (grad_array (grad (s ! out)))) (\<lambda>c.
       add_grad s self (GradArray c))"

subsection \<open>The backward closures\<close>

fun run_closure :: "heap \<Rightarrow> closure \<Rightarrow> heap result" where
  "run_closure s back_none = Returns s"
| "run_closure s (add_backward self other out) =
     bind (reshape_grad (grad (s ! out)) (shape (data (s ! self)))) (\<lambda>c.
     bind (add_grad s self (GradArray c)) (\<lambda>s.
     bind (reshape_grad (grad (s ! out)) (shape (data (s ! other)))) (\<lambda>c.
       add_grad s other (GradArray c))))"
| "run_closure s (mul_backward self other out) =
     bind (np_binop (*) (data (s ! other)) (grad_array (grad (s ! out)))) (\<lambda>p.
     bind (reshape_gradient p (shape (data (s ! self)))) (\<lambda>c.
     bind (add_grad s self (GradArray c)) (\<lambda>s.
     bind (np_binop (*) (data (s ! self)) (grad_array (grad (s ! out)))) (\<lambda>p.
     bind (reshape_gradient p (shape (data (s ! other)))) (\<lambda>c.
       add_grad s other (GradArray c))))))"
| "run_closure s (matmul_backward self other out) =
     bind (np_matmul (grad_array (grad (s ! out))) (np_transpose (data (s ! other)))) (\<lambda>c.
     bind (add_grad s self (GradArray c)) (\<lambda>s.
     bind (np_matmul (np_transpose (data (s ! self))) (grad_array (grad (s ! out)))) (\<lambda>c.
       add_grad s other (GradArray c))))"
| "run_closure s (pow_backward self other out) =
     add_scaled s self
       (np_map (\<lambda>x. num_real other * float_power x (minus_one other)) (data (s ! self))) out"
| "run_closure s (sin_backward self out) =
     add_scaled s self (np_map cos (data (s ! self))) out"
| "run_closure s (cos_backward self out) =
     bind (np_binop (*) (np_map sin (data (s ! self))) (grad_array (grad (s ! out)))) (\<lambda>c.
       sub_grad s self (GradArray c))"
| "run_closure s (exp_backward self out) =
     add_scaled s self (np_map exp (data (s ! self))) out"
| "run_closure s (log_backward self out) =
     add_scaled s self (np_map (\<lambda>x. 1 / x) (data (s ! self))) out"
| "run_closure s (sum_backward self out) = add_grad s self (grad (s ! out))"
| "run_closure s (stack_backward self other out) =
     (case grad (s ! out) of
        GradInt n \<Rightarrow> Raises TypeError
      | GradArray g \<Rightarrow>
          bind (np_index0 g 0) (\<lambda>c.
          bind (add_grad s self (GradArray c)) (\<lambda>s.
            (case grad (s ! out) of
               GradInt n \<Rightarrow> Raises TypeError
             | GradArray g \<Rightarrow>
                 bind (np_index0 g 1) (\<lambda>c. add_grad s other (GradArray c))))))"
| "run_closure s (T_backward self out) =
     (case grad (s ! out) of
        GradInt n \<Rightarrow> Raises AttributeError
      | GradArray g \<Rightarrow> add_grad s self (GradArray (np_transpose g)))"
| "run_closure s (relu_backward self out) =
     add_scaled s self (np_map (\<lambda>x. if x > 0 then 1 else 0) (data (s ! self))) out"
| "run_closure s (sigmoid_backward self out) =
     add_scaled s self
       (np_map (\<lambda>x. exp (- x) / ((exp (- x) + 1) ^ 2)) (data (s ! self))) out"
| "run_closure s (tanh_backward self out) =
     add_scaled s self
       (np_map (\<lambda>x. (4 * exp (2 * x)) / ((exp (2 * x) + 1) ^ 2)) (data (s ! self))) out"
| "run_closure s (cross_entropy_backward self sigma one_hot_target N) =
     bind (np_binop (-) sigma one_hot_target) (\<lambda>d.
       add_grad s self (GradArray (np_map (\<lambda>x. x / of_nat N) d)))"
| "run_closure s (regularization_backward self reg out) =
     add_scaled s self (np_map (\<lambda>x. 2 * reg * x) (data (s ! self))) out"

subsection \<open>Basic operations\<close>

definition add :: "heap \<Rightarrow> nat \<Rightarrow> pyobj \<Rightarrow> (heap \<times> nat) result" where
  "add s self other =
     (let (s, other) = promote s other
      in bind (np_binop (+) (data (s ! self)) (data (s ! other))) (\<lambda>v.
           Returns (new_node s v [self, other] (Tag ''+'') (add_backward self other))))"

definition mul :: "heap \<Rightarrow> nat \<Rightarrow> pyobj \<Rightarrow> (heap \<times> nat) result" where
  "mul s self other =
     (let (s, other) = promote s other
      in bind (np_binop (*) (data (s ! self)) (data (s ! other))) (\<lambda>v.
           Returns (new_node s v [self, other] (Tag ''*'') (mul_backward self other))))"

text \<open>The output of \<open>matmul\<close> is constructed without a parent tuple and without a tag.\<close>

definition matmul :: "heap \<Rightarrow> nat \<Rightarrow> pyobj \<Rightarrow> (heap \<times> nat) result" where
  "matmul s self other =
     (let (s, other) = promote s other
      in bind (np_matmul (data (s ! self)) (data (s ! other))) (\<lambda>v.
           Returns (new_node s v [] (Tag []) (matmul_backward self other))))"

text \<open>\<open>assert isinstance(other, (int, float))\<close>: a \<open>bool\<close> is an \<open>int\<close>.\<close>

fun pow :: "heap \<Rightarrow> nat \<Rightarrow> pyobj \<Rightarrow> (heap \<times> nat) result" where
  "pow s self (Num other) =
     Returns (new_node s (np_map (\<lambda>x. float_power x other) (data (s ! self))) [self]
       (PowTag other) (pow_backward self other))"
| "pow s self other = Raises AssertionError"

definition neg :: "heap \<Rightarrow> nat \<Rightarrow> (heap \<times> nat) result" where
  "neg s self = mul s self (Num (PyInt (- 1)))"

text \<open>\<open>-other\<close> for the operand of \<open>__sub__\<close>.\<close>

fun neg_operand :: "heap \<Rightarrow> pyobj \<Rightarrow> (heap \<times> pyobj) result" where
  "neg_operand s (TensorRef t) = bind (neg s t) (\<lambda>(s, n). Returns (s, TensorRef n))"
| "neg_operand s (Num c) = Returns (s, Num (negate c))"
| "neg_operand s (Array a) = Returns (s, Array (np_map uminus a))"
| "neg_operand s (IntArray sh xs) = Returns (s, IntArray sh (map uminus xs))"

definition sub :: "heap \<Rightarrow> nat \<Rightarrow> pyobj \<Rightarrow> (heap \<times> nat) result" where
  "sub s self other = bind (neg_operand s other) (\<lambda>(s, n). add s self n)"

text \<open>
  \<open>other**-1\<close> for the operand of \<open>__truediv__\<close>: Python's own power on a plain
  number, numpy's on an array (integer arrays refuse negative powers).
\<close>

fun inverse_operand :: "heap \<Rightarrow> pyobj \<Rightarrow> (heap \<times> pyobj) result" where
  "inverse_operand s (TensorRef t) =
     bind (pow s t (Num (PyInt (- 1)))) (\<lambda>(s, n). Returns (s, TensorRef n))"
| "inverse_operand s (Num c) =
     (if num_real c = 0 then Raises ZeroDivisionError
      else Returns (s, Num (PyFloat (1 / num_real c))))"
| "inverse_operand s (Array a) = Returns (s, Array (np_map (\<lambda>x. x powi (- 1)) a))"
| "inverse_operand s (IntArray sh xs) = Raises ValueError"

definition truediv :: "heap \<Rightarrow> nat \<Rightarrow> pyobj \<Rightarrow> (heap \<times> nat) result" where
  "truediv s self other = bind (inverse_operand s other) (\<lambda>(s, n). mul s self n)"

text \<open>
  The reflected operators: Python calls them when the left operand is a plain
  number, whose own operator returned \<open>NotImplemented\<close>.
\<close>

definition radd :: "heap \<Rightarrow> nat \<Rightarrow> number \<Rightarrow> (heap \<times> nat) result" where
  "radd s self other = add s self (Num other)"

definition rsub :: "heap \<Rightarrow> nat \<Rightarrow> number \<Rightarrow> (heap \<times> nat) result" where
  "rsub s self other = bind (neg s self) (\<lambda>(s, n). add s n (Num other))"

definition rmul :: "heap \<Rightarrow> nat \<Rightarrow> number \<Rightarrow> (heap \<times> nat) result" where
  "rmul s self other = mul s self (Num other)"

text \<open>
  \<open>other * (self**-1)\<close>: the number's \<open>__mul__\<close> returns \<open>NotImplemented\<close>, so the
  product is \<open>__rmul__\<close> of the new Tensor.
\<close>

definition rtruediv :: "heap \<Rightarrow> nat \<Rightarrow> number \<Rightarrow> (heap \<times> nat) result" where
  "rtruediv s self other =
     bind (pow s self (Num (PyInt (- 1)))) (\<lambda>(s, p). rmul s p other)"

text \<open>
  \<open>__rpow__\<close> evaluates \<open>other**self\<close>. The number's \<open>__pow__\<close> returns
  \<open>NotImplemented\<close> on a Tensor, so Python calls \<open>self.__rpow__(other)\<close> again:
  each call takes one frame of the interpreter's stack, whose remaining depth is
  the first argument.
\<close>

fun rpow :: "nat \<Rightarrow> heap \<Rightarrow> nat \<Rightarrow> number \<Rightarrow> (heap \<times> nat) result" where
  "rpow 0 s self other = Raises RecursionError"
| "rpow (Suc depth) s self other = rpow depth s self other"

subsection \<open>Functions, activations and losses\<close>

definition unary ::
  "heap \<Rightarrow> nat \<Rightarrow> (real \<Rightarrow> real) \<Rightarrow> string \<Rightarrow> (nat \<Rightarrow> nat \<Rightarrow> closure) \<Rightarrow> (heap \<times> nat) result" where
  "unary s self f tag c =
     Returns (new_node s (np_map f (data (s ! self))) [self] (Tag tag) (c self))"

definition sin_t :: "heap \<Rightarrow> nat \<Rightarrow> (heap \<times> nat) result" where
  "sin_t s self = unary s self sin ''sin'' sin_backward"

definition cos_t :: "heap \<Rightarrow> nat \<Rightarrow> (heap \<times> nat) result" where
  "cos_t s self = unary s self cos ''cos'' cos_backward"

definition exp_t :: "heap \<Rightarrow> nat \<Rightarrow> (heap \<times> nat) result" where
  "exp_t s self = unary s self exp ''exp'' exp_backward"

definition log_t :: "heap \<Rightarrow> nat \<Rightarrow> (heap \<times> nat) result" where
  "log_t s self = unary s self ln ''log'' log_backward"

definition sum_t :: "heap \<Rightarrow> nat \<Rightarrow> axis_arg \<Rightarrow> (heap \<times> nat) result" where
  "sum_t s self axis =
     bind (np_sum (data (s ! self)) axis False) (\<lambda>v.
       Returns (new_node s v [self] (Tag ''sum'') (sum_backward self)))"

definition stack :: "heap \<Rightarrow> nat \<Rightarrow> pyobj \<Rightarrow> int \<Rightarrow> (heap \<times> nat) result" where
  "stack s self other axis =
     (let (s, other) = promote s other
      in bind (np_stack (data (s ! self)) (data (s ! other)) axis) (\<lambda>v.
           Returns (new_node s v [self, other] (Tag ''stack'') (stack_backward self other))))"

definition T :: "heap \<Rightarrow> nat \<Rightarrow> (heap \<times> nat) result" where
  "T s self =
     Returns (new_node s (np_transpose (data (s ! self))) [self] (Tag ''T'') (T_backward self))"

definition relu :: "heap \<Rightarrow> nat \<Rightarrow> (heap \<times> nat) result" where
  "relu s self = unary s self (max 0) ''relu'' relu_backward"

definition sigmoid :: "heap \<Rightarrow> nat \<Rightarrow> (heap \<times> nat) result" where
  "sigmoid s self = unary s self (\<lambda>x. 1 / (1 + exp (- x))) ''sigmoid'' sigmoid_backward"

definition tanh_t :: "heap \<Rightarrow> nat \<Rightarrow> (heap \<times> nat) result" where
  "tanh_t s self =
     unary s self (\<lambda>x. (exp x - exp (- x)) / (exp x + exp (- x))) ''tanh'' tanh_backward"

text \<open>
  \<open>isinstance(target, np.ndarray) and len(target.shape) == 1\<close>: the element type
  of the array is not looked at.
\<close>

fun is_1d_ndarray :: "pyobj \<Rightarrow> bool" where
  "is_1d_ndarray (Array a) = (length (shape a) = 1)"
| "is_1d_ndarray (IntArray sh xs) = (length sh = 1)"
| "is_1d_ndarray other = False"

text \<open>
  \<open>one_hot_target[np.arange(len(target)), target] = 1\<close> on zeros of the shape of
  \<open>sigma\<close> (of rank 2 at least): numpy raises IndexError on an index array of
  floats, on a row past the first axis and on a class outside the second axis;
  a negative class counts from the end.
\<close>

fun one_hot :: "nat list \<Rightarrow> pyobj \<Rightarrow> ndarray result" where
  "one_hot sh (IntArray tsh target) =
     (if (0 < length target \<and> sh ! 0 < length target)
         \<or> \<not> list_all (\<lambda>t. - int (sh ! 1) \<le> t \<and> t < int (sh ! 1)) target
      then Raises IndexError
      else Returns (tabulate sh (\<lambda>idx.
        if idx ! 0 < length target
           \<and> int (idx ! 1) =
               (if target ! (idx ! 0) < 0 then target ! (idx ! 0) + int (sh ! 1)
                else target ! (idx ! 0))
        then 1 else 0)))"
| "one_hot sh other = Raises IndexError"

definition cross_entropy_loss :: "heap \<Rightarrow> nat \<Rightarrow> pyobj \<Rightarrow> (heap \<times> nat) result" where
  "cross_entropy_loss s self target =
     (if \<not> is_1d_ndarray target then Raises AssertionError
      else
        bind (np_max_axis1_keepdims (data (s ! self))) (\<lambda>row_max.
        bind (np_binop (-) (data (s ! self)) row_max) (\<lambda>stable_data.
        let exp_data = np_map exp stable_data in
        bind (np_sum exp_data (AxisInt 1) True) (\<lambda>exp_sum.
        bind (np_binop (/) exp_data exp_sum) (\<lambda>sigma.
        let N = hd (shape sigma) in
        bind (one_hot (shape sigma) target) (\<lambda>one_hot_target.
        bind (np_binop (*) one_hot_target (np_map ln sigma)) (\<lambda>terms.
        let loss_value = - sum_list (elems terms) in
          Returns (new_node s (scalar loss_value) [self] (Tag ''c-e_loss'')
            (\<lambda>out. cross_entropy_backward self sigma one_hot_target N)))))))))"

definition regularization_loss :: "heap \<Rightarrow> nat \<Rightarrow> real \<Rightarrow> (heap \<times> nat) result" where
  "regularization_loss s self reg =
     Returns (new_node s (scalar (reg * sum_list (map (\<lambda>x. x ^ 2) (elems (data (s ! self))))))
       [self] (Tag ''reg_loss'') (\<lambda>out. regularization_backward self reg out))"

section \<open>Backward pass and optimisation\<close>

text \<open>
  \<open>build_topo\<close> is recursive: a node that is not yet visited is marked, its
  parents are traversed, then it is appended. The first argument is the depth of
  stack left; Python raises RecursionError when it is used up.
\<close>

fun build_topo ::
  "nat \<Rightarrow> heap \<Rightarrow> nat \<Rightarrow> nat list \<times> nat set \<Rightarrow> (nat list \<times> nat set) result" where
  "build_topo 0 s node st = Raises RecursionError"
| "build_topo (Suc depth) s node (topo, visited) =
     (if node \<notin> visited
      then bind (fold (\<lambda>child r. bind r (build_topo depth s child)) (prev (s ! node))
                  (Returns (topo, insert node visited)))
             (\<lambda>(topo, visited). Returns (topo @ [node], visited))
      else Returns (topo, visited))"

definition traverse_children :: "nat \<Rightarrow> heap \<Rightarrow> nat \<Rightarrow> nat list result" where
  "traverse_children depth s self =
     bind (build_topo depth s self ([], {})) (\<lambda>(topo, visited). Returns topo)"

definition run_all :: "heap \<Rightarrow> nat list \<Rightarrow> heap result" where
  "run_all s nodes =
     fold (\<lambda>node r. bind r (\<lambda>s. run_closure s (backward_closure (s ! node)))) nodes (Returns s)"

definition backward :: "nat \<Rightarrow> heap \<Rightarrow> nat \<Rightarrow> heap result" where
  "backward depth s self =
     bind (traverse_children depth s self) (\<lambda>topo.
       run_all (s[self := (s ! self)\<lparr>grad := GradArray (np_ones (shape (data (s ! self))))\<rparr>])
         (rev topo))"

definition zero_grad :: "nat \<Rightarrow> heap \<Rightarrow> nat \<Rightarrow> heap result" where
  "zero_grad depth s self =
     bind (traverse_children depth s self) (\<lambda>topo.
       Returns (fold (\<lambda>node s. s[node := (s ! node)\<lparr>grad := GradInt 0\<rparr>])
         (rev (self # topo)) s))"

text \<open>\<open>node.data -= node.grad * learning_rate\<close>\<close>

definition update :: "real \<Rightarrow> heap \<Rightarrow> nat \<Rightarrow> heap result" where
  "update learning_rate s node =
     (if req_grad (s ! node)
      then bind (np_isub (data (s ! node))
                   (np_map (\<lambda>g. g * learning_rate) (grad_array (grad (s ! node))))) (\<lambda>d.
             Returns (s[node := (s ! node)\<lparr>data := d\<rparr>]))
      else Returns s)"

definition step :: "nat \<Rightarrow> heap \<Rightarrow> nat \<Rightarrow> real \<Rightarrow> heap result" where
  "step depth s self learning_rate =
     bind (traverse_children depth s self) (\<lambda>topo.
       fold (\<lambda>node r. bind r (\<lambda>s. update learning_rate s node)) (rev (self # topo))
         (Returns s))"

section \<open>Vocabulary of the claims\<close>

text \<open>The test of \<open>__pow__\<close>, \<open>isinstance(other, (int, float))\<close>, on its own.\<close>

fun isinstance_int_float :: "pyobj \<Rightarrow> bool" where
  "isinstance_int_float (Num c) = True"
| "isinstance_int_float other = False"

text \<open>
  The words of the specification, ``a 1-D index array'': a one-dimensional array of
  integers. This predicate is not in the code; it is what the claim about
  \<open>cross_entropy_loss\<close> is compared with.
\<close>

fun spec_1d_index_array :: "pyobj \<Rightarrow> bool" where
  "spec_1d_index_array (IntArray sh xs) = (length sh = 1)"
| "spec_1d_index_array other = False"

text \<open>
  The nodes a backward closure adds into, and the node whose gradient it reads.
\<close>

fun targets :: "closure \<Rightarrow> nat list" where
  "targets back_none = []"
| "targets (add_backward self other out) = [self, other]"
| "targets (mul_backward self other out) = [self, other]"
| "targets (matmul_backward self other out) = [self, other]"
| "targets (pow_backward self other out) = [self]"
| "targets (sin_backward self out) = [self]"
| "targets (cos_backward self out) = [self]"
| "targets (exp_backward self out) = [self]"
| "targets (log_backward self out) = [self]"
| "targets (sum_backward self out) = [self]"
| "targets (stack_backward self other out) = [self, other]"
| "targets (T_backward self out) = [self]"
| "targets (relu_backward self out) = [self]"
| "targets (sigmoid_backward self out) = [self]"
| "targets (tanh_backward self out) = [self]"
| "targets (cross_entropy_backward self sigma one_hot_target N) = [self]"
| "targets (regularization_backward self reg out) = [self]"

fun reads :: "closure \<Rightarrow> nat list" where
  "reads back_none = []"
| "reads (add_backward self other out) = [out]"
| "reads (mul_backward self other out) = [out]"
| "reads (matmul_backward self other out) = [out]"
| "reads (pow_backward self other out) = [out]"
| "reads (sin_backward self out) = [out]"
| "reads (cos_backward self out) = [out]"
| "reads (exp_backward self out) = [out]"
| "reads (log_backward self out) = [out]"
| "reads (sum_backward self out) = [out]"
| "reads (stack_backward self other out) = [out]"
| "reads (T_backward self out) = [out]"
| "reads (relu_backward self out) = [out]"
| "reads (sigmoid_backward self out) = [out]"
| "reads (tanh_backward self out) = [out]"
| "reads (cross_entropy_backward self sigma one_hot_target N) = []"
| "reads (regularization_backward self reg out) = [out]"

text \<open>
  A leaf has no parents and the no-op rule. A node's own closure reads the
  gradient of that node only and never adds into it (every operation builds its
  output's closure so). A fresh gradient is the zero array of the value's shape,
  as the constructor sets it.
\<close>

definition is_leaf :: "heap \<Rightarrow> nat \<Rightarrow> bool" where
  "is_leaf s p = (prev (s ! p) = [] \<and> backward_closure (s ! p) = back_none)"

definition own_closure :: "nat \<Rightarrow> closure \<Rightarrow> bool" where
  "own_closure node c = (list_all (\<lambda>r. r = node) (reads c) \<and> node \<notin> set (targets c))"

definition fresh_grad :: "heap \<Rightarrow> nat \<Rightarrow> bool" where
  "fresh_grad s p = (p < length s \<and> grad (s ! p) = GradArray (np_zeros (shape (data (s ! p)))))"


section \<open>Backward closures as accumulation steps\<close>








definition well_formed :: "ndarray \<Rightarrow> bool" where
  "well_formed g = (length (elems g) = length (indices (shape g)))"




section \<open>Evaluation\<close>

lemmas array_eval =
  upt_conv_Cons np_ones_def np_zeros_def tabulate_def broadcast_axes_def np_sum_def
  reduced_axes_def normalize_axis_def reduced_shape_def kept_def project_def get_def
  ravel_def broadcast_shapes_def bidx_def broadcast_to_def np_binop_def np_iadd_def
  np_isub_def np_map_def scalar_def np_index0_def np_transpose_def np_stack_def
  np_matmul_def np_max_axis1_keepdims_def reshape_gradient_def pad_target.simps

lemmas tensor_eval =
  Tensor_def set_backward_def new_node_def add_grad_def sub_grad_def add_scaled_def
  add_def mul_def matmul_def sum_t_def stack_def cross_entropy_loss_def
  traverse_children_def run_all_def backward_def zero_grad_def update_def step_def

section \<open>Lemmas\<close>

lemma bind_no_assert:
  "m \<noteq> Raises AssertionError \<Longrightarrow> (\<And>x. f x \<noteq> Raises AssertionError)
   \<Longrightarrow> bind m f \<noteq> Raises AssertionError"
  by (cases m) simp_all

lemma normalize_axes_no_assert: "normalize_axes rank axs \<noteq> Raises AssertionError"
proof (induction axs)
  case Nil
  show ?case by simp
next
  case (Cons ax axs)
  show ?case
    unfolding normalize_axes.simps
    by (intro bind_no_assert) (simp_all add: normalize_axis_def Cons)
qed

lemma reduced_axes_no_assert: "reduced_axes rank ax \<noteq> Raises AssertionError"
  by (cases ax) (simp_all add: reduced_axes_def normalize_axes_no_assert del: normalize_axes.simps)

lemma np_sum_no_assert: "np_sum a ax keepdims \<noteq> Raises AssertionError"
  unfolding np_sum_def
  by (intro bind_no_assert reduced_axes_no_assert) simp

lemma np_binop_no_assert: "np_binop f a b \<noteq> Raises AssertionError"
  by (simp add: np_binop_def split: option.splits)

lemma np_max_no_assert: "np_max_axis1_keepdims a \<noteq> Raises AssertionError"
  by (simp add: np_max_axis1_keepdims_def)

lemma one_hot_no_assert: "one_hot sh target \<noteq> Raises AssertionError"
  by (cases target) simp_all

lemma cross_entropy_assert:
  "(cross_entropy_loss s self target = Raises AssertionError) = (\<not> is_1d_ndarray target)"
proof (cases "is_1d_ndarray target")
  case False
  then show ?thesis by (simp add: cross_entropy_loss_def)
next
  case True
  have "cross_entropy_loss s self target \<noteq> Raises AssertionError"
    unfolding cross_entropy_loss_def Let_def
    using True
    by (simp del: bind.simps)
      (intro bind_no_assert np_max_no_assert np_binop_no_assert np_sum_no_assert
        one_hot_no_assert; simp)
  with True show ?thesis by simp
qed

lemma pow_assert: "(pow s self other = Raises AssertionError) = (\<not> isinstance_int_float other)"
  by (cases other) (simp_all add: new_node_def Tensor_def)


lemma bind_Returns_eq:
  "(bind m f = Returns y) = (\<exists>x. m = Returns x \<and> f x = Returns y)"
  by (cases m) simp_all






lemma map2_zero_left:
  "length xs = length ys \<Longrightarrow> map2 (+) (map (\<lambda>_. 0) xs) ys = (ys :: real list)"
  by (induction xs ys rule: list_induct2) simp_all

lemma map2_self: "map2 (+) xs xs = map (\<lambda>x. 2 * x) (xs :: real list)"
  by (induction xs) simp_all


























text \<open>
  What the constructor and the operations build meets the hypotheses used for the
  two-pass theorem: a constructed Tensor is a leaf with a fresh gradient, and the
  closure of a new node reads that node's gradient only and adds into older nodes.
\<close>

lemma Tensor_leaf:
  "Tensor s d [] tag lbl rg w = (s', t) \<Longrightarrow> t = length s \<and> is_leaf s' t \<and> fresh_grad s' t"
  by (auto simp: Tensor_def is_leaf_def fresh_grad_def)

lemma new_node_own_closure:
  assumes "list_all (\<lambda>r. r = length s) (reads (c (length s)))"
    and "list_all (\<lambda>t. t < length s) (targets (c (length s)))"
    and "new_node s v parent tag c = (s', out)"
  shows "out = length s \<and> out < length s' \<and> own_closure out (backward_closure (s' ! out))
         \<and> prev (s' ! out) = remdups parent \<and> fresh_grad s' out"
  using assms
  by (auto simp: new_node_def Tensor_def set_backward_def own_closure_def fresh_grad_def
      list_all_iff)

lemma add_own_closure:
  assumes "self < length s" and "other < length s"
    and "add s self (TensorRef other) = Returns (s', out)"
  shows "out < length s' \<and> own_closure out (backward_closure (s' ! out))
         \<and> prev (s' ! out) = remdups [self, other]"
proof -
  from assms(3) obtain v where
    "new_node s v [self, other] (Tag ''+'') (add_backward self other) = (s', out)"
    by (auto simp: add_def bind_Returns_eq)
  from new_node_own_closure[OF _ _ this] assms(1,2) show ?thesis by auto
qed

lemma mul_own_closure:
  assumes "self < length s" and "other < length s"
    and "mul s self (TensorRef other) = Returns (s', out)"
  shows "out < length s' \<and> own_closure out (backward_closure (s' ! out))
         \<and> prev (s' ! out) = remdups [self, other]"
proof -
  from assms(3) obtain v where
    "new_node s v [self, other] (Tag ''*'') (mul_backward self other) = (s', out)"
    by (auto simp: mul_def bind_Returns_eq)
  from new_node_own_closure[OF _ _ this] assms(1,2) show ?thesis by auto
qed

text \<open>
  Arrays of one shape: the row-major position of the k-th index is k, so
  broadcasting a well-formed array to its own shape gives the array back, and the
  kernels act elementwise.
\<close>

lemma bc_rev_self: "bc_rev xs xs = Some xs"
  by (induction xs) simp_all

lemma broadcast_shapes_self: "broadcast_shapes sh sh = Some sh"
  by (simp add: broadcast_shapes_def bc_rev_self)

lemma indices_in_range:
  "idx \<in> set (indices sh) \<Longrightarrow> list_all2 (<) idx sh"
  by (induction sh arbitrary: idx) auto

lemma bidx_in_range: "list_all2 (<) idx sh \<Longrightarrow> bidx sh idx = idx"
proof -
  assume a: "list_all2 (<) idx sh"
  then have len: "length idx = length sh" by (rule list_all2_lengthD)
  from a have "map2 (\<lambda>n i. if n = 1 then 0 else i) sh idx = idx"
    by (induction idx sh rule: list_all2_induct) auto
  then show ?thesis by (simp add: bidx_def len)
qed

lemma concat_blocks:
  "concat (map (\<lambda>i. map (\<lambda>k. (c + i) * P + k) [0..<P]) [0..<n])
     = map (\<lambda>k. c * P + k) [0..<n * P]"
proof (induction n)
  case 0
  show ?case by simp
next
  case (Suc n)
  have split: "[0..<n * P + P] = [0..<n * P] @ map (\<lambda>k. k + n * P) [0..<P]"
  proof -
    have "[0..<n * P + P] = [0..<n * P] @ [n * P..<n * P + P]"
      by (rule upt_add_eq_append) simp
    moreover have "map (\<lambda>k. k + n * P) [0..<P] = [n * P..<P + n * P]"
      by (rule map_add_upt)
    moreover have "P + n * P = n * P + P" by simp
    ultimately show ?thesis by simp
  qed
  have last: "map (\<lambda>k. c * P + k) (map (\<lambda>k. k + n * P) [0..<P])
              = map (\<lambda>k. (c + n) * P + k) [0..<P]"
    by (simp add: add_mult_distrib)
  have "concat (map (\<lambda>i. map (\<lambda>k. (c + i) * P + k) [0..<P]) [0..<Suc n])
        = concat (map (\<lambda>i. map (\<lambda>k. (c + i) * P + k) [0..<P]) [0..<n])
          @ map (\<lambda>k. (c + n) * P + k) [0..<P]"
    by simp
  also have "\<dots> = map (\<lambda>k. c * P + k) [0..<n * P] @ map (\<lambda>k. (c + n) * P + k) [0..<P]"
    by (simp only: Suc.IH)
  also have "\<dots> = map (\<lambda>k. c * P + k) [0..<n * P + P]"
    unfolding split map_append last ..
  finally show ?case by (simp add: add.commute)
qed

lemma foldl_indices:
  "map (\<lambda>idx. foldl (\<lambda>acc (n, i). acc * n + i) acc (zip sh idx)) (indices sh)
     = map (\<lambda>k. acc * prod_list sh + k) [0..<prod_list sh]"
proof (induction sh arbitrary: acc)
  case Nil
  show ?case by simp
next
  case (Cons n ns)
  have "map (\<lambda>idx. foldl (\<lambda>acc (n, i). acc * n + i) acc (zip (n # ns) idx)) (indices (n # ns))
        = concat (map (\<lambda>i. map (\<lambda>idx. foldl (\<lambda>acc (n, i). acc * n + i) (acc * n + i) (zip ns idx))
                                (indices ns)) [0..<n])"
    by (simp add: map_concat comp_def)
  also have "\<dots> = concat (map (\<lambda>i. map (\<lambda>k. (acc * n + i) * prod_list ns + k) [0..<prod_list ns])
                                [0..<n])"
    by (simp only: Cons.IH)
  also have "\<dots> = map (\<lambda>k. (acc * n) * prod_list ns + k) [0..<n * prod_list ns]"
    by (rule concat_blocks)
  finally show ?case by (simp add: mult.assoc)
qed

lemma ravel_indices: "map (ravel sh) (indices sh) = [0..<prod_list sh]"
  using foldl_indices[of 0 sh] by (simp add: ravel_def[abs_def] map_idI)

lemma length_indices: "length (indices sh) = prod_list sh"
  using arg_cong[OF ravel_indices, of length sh] by simp

lemma broadcast_to_self:
  assumes "well_formed a"
  shows "broadcast_to a (shape a) = a"
proof -
  have "map (\<lambda>idx. elems a ! ravel (shape a) (bidx (shape a) idx)) (indices (shape a))
        = map (\<lambda>idx. elems a ! ravel (shape a) idx) (indices (shape a))"
    by (intro map_cong refl) (simp add: bidx_in_range indices_in_range)
  also have "\<dots> = map ((!) (elems a)) (map (ravel (shape a)) (indices (shape a)))"
    by (simp add: comp_def)
  also have "\<dots> = elems a"
  proof -
    have "prod_list (shape a) = length (elems a)"
      using assms by (simp add: well_formed_def length_indices)
    then show ?thesis by (simp add: ravel_indices map_nth)
  qed
  finally show ?thesis
    by (simp add: broadcast_to_def tabulate_def get_def)
qed

lemma shape_np_ones: "shape (np_ones sh) = sh"
  by (simp add: np_ones_def tabulate_def)

lemma shape_np_zeros: "shape (np_zeros sh) = sh"
  by (simp add: np_zeros_def tabulate_def)

lemma well_formed_np_ones: "well_formed (np_ones sh)"
  by (simp add: well_formed_def np_ones_def tabulate_def)

lemma map2_const_right:
  "length xs = length ys \<Longrightarrow> map2 f xs (map (\<lambda>_. c) ys) = map (\<lambda>x. f x c) xs"
  by (induction xs ys rule: list_induct2) simp_all

lemma np_binop_self:
  "well_formed a \<Longrightarrow>
   np_binop f a a = Returns \<lparr>shape = shape a, elems = map2 f (elems a) (elems a)\<rparr>"
  by (simp add: np_binop_def broadcast_shapes_self broadcast_to_self)

lemma np_binop_ones:
  assumes "well_formed a"
  shows "np_binop (*) a (np_ones (shape a)) = Returns a"
proof -
  have "broadcast_to (np_ones (shape a)) (shape a) = np_ones (shape a)"
    using broadcast_to_self[of "np_ones (shape a)"]
    by (simp add: shape_np_ones well_formed_np_ones)
  moreover have "map2 (*) (elems a) (elems (np_ones (shape a))) = elems a"
    using assms by (simp add: np_ones_def tabulate_def well_formed_def map2_const_right)
  ultimately show ?thesis
    using assms
    by (simp add: np_binop_def broadcast_shapes_self broadcast_to_self shape_np_ones)
qed

lemma reshape_gradient_same: "shape g = sh \<Longrightarrow> reshape_gradient g sh = Returns g"
  by (simp add: reshape_gradient_def)

lemma np_iadd_zeros:
  assumes "well_formed b" and "shape b = sh"
  shows "np_iadd (np_zeros sh) b = Returns b"
proof -
  have "map2 (+) (elems (np_zeros sh)) (elems b) = elems b"
    using assms by (simp add: np_zeros_def tabulate_def well_formed_def map2_zero_left)
  then show ?thesis
    using assms broadcast_to_self[of b]
    by (auto simp: np_iadd_def broadcast_shapes_self shape_np_zeros)
qed

lemma np_iadd_self:
  "well_formed a \<Longrightarrow> np_iadd a a = Returns (np_map (\<lambda>v. 2 * v) a)"
  by (simp add: np_iadd_def broadcast_shapes_self broadcast_to_self map2_self np_map_def)

lemma double_ones: "np_map (\<lambda>v. 2 * v) (np_ones sh) = tabulate sh (\<lambda>_. 2)"
  by (simp add: np_map_def np_ones_def tabulate_def)

lemmas same_shape_eval =
  shape_np_ones shape_np_zeros well_formed_np_ones np_binop_self np_binop_ones reshape_gradient_same np_iadd_zeros np_iadd_self double_ones

section \<open>The claims\<close>

text \<open>
  C1. Every operation should record its operands as the parents of its output, so
  that traversal from a matmul result reaches both operands and \<open>backward\<close>,
  \<open>zero_grad\<close> and \<open>step\<close> act on them. The code constructs the output of \<open>matmul\<close>
  without parents. For trainable \<open>a = [[1,2],[3,4]]\<close>, \<open>b = [[5,6],[7,8]]\<close> and
  \<open>out = a.matmul(b)\<close>: \<open>out\<close> has no parents, the traversal from \<open>out\<close> is \<open>[out]\<close>
  alone, and after \<open>out.backward()\<close>, \<open>out.step(0.1)\<close>, \<open>out.zero_grad()\<close> the operands
  still hold their old values and their non-zero gradients: the step and the reset
  never reached them.
\<close>

theorem matmul_records_no_parents:
  "bind (matmul
       (fst (Tensor (fst (Tensor [] \<lparr>shape = [2, 2], elems = [1, 2, 3, 4]\<rparr> [] (Tag []) [] True False))
          \<lparr>shape = [2, 2], elems = [5, 6, 7, 8]\<rparr> [] (Tag []) [] True False))
       0 (TensorRef 1))
     (\<lambda>(s, out).
        bind (traverse_children (Suc depth) s out) (\<lambda>topo.
        bind (backward (Suc depth) s out) (\<lambda>s1.
        bind (step (Suc depth) s1 out (1 / 10)) (\<lambda>s2.
        bind (zero_grad (Suc depth) s2 out) (\<lambda>s3.
          Returns (out, prev (s ! out), topo, map req_grad s3, map data s3, map grad s3))))))
   = Returns (2, [], [2], [True, True, False],
       [\<lparr>shape = [2, 2], elems = [1, 2, 3, 4]\<rparr>,
        \<lparr>shape = [2, 2], elems = [5, 6, 7, 8]\<rparr>,
        \<lparr>shape = [2, 2], elems = [19, 22, 43, 50]\<rparr>],
       [GradArray \<lparr>shape = [2, 2], elems = [11, 15, 11, 15]\<rparr>,
        GradArray \<lparr>shape = [2, 2], elems = [4, 4, 6, 6]\<rparr>,
        GradInt 0])"
  by (simp add: array_eval tensor_eval)

text \<open>
  C2. For a target shape T that broadcasts to the gradient's shape G the reducer
  should return an array of shape exactly T. The target \<open>(2,1)\<close> broadcasts to
  \<open>(4,2,3)\<close>, and the code returns shape \<open>(2)\<close>: once the target was padded,
  \<open>keepdims\<close> is off for every summed axis, the interior one included. The target
  \<open>(3)\<close> broadcasts to \<open>(1,3)\<close>, and the code returns shape \<open>(1,3)\<close>: an axis of
  length 1 in the gradient is never summed, the padded one included.
\<close>

theorem reshape_gradient_wrong_shape:
  "broadcast_shapes [2, 1] [4, 2, 3] = Some [4, 2, 3]
   \<and> reshape_gradient (np_ones [4, 2, 3]) [2, 1] = Returns \<lparr>shape = [2], elems = [12, 12]\<rparr>
   \<and> broadcast_shapes [3] [1, 3] = Some [1, 3]
   \<and> reshape_gradient (np_ones [1, 3]) [3] = Returns \<lparr>shape = [1, 3], elems = [1, 1, 1]\<rparr>"
  by (simp add: array_eval)

text \<open>
  C3. A node's gradient should always be an array of the shape of its value, and
  after \<open>zero_grad\<close> an all-zero array of that shape. The code assigns the integer
  \<open>0\<close>: for every array \<open>a\<close>, \<open>Tensor(a).zero_grad()\<close> leaves the gradient attribute
  holding an integer, not an array.
\<close>

theorem zero_grad_assigns_integer:
  "bind (zero_grad (Suc depth) (fst (Tensor [] a [] tag lbl rg w)) 0)
     (\<lambda>s. Returns (map grad s)) = Returns [GradInt 0]"
  by (simp add: tensor_eval)

text \<open>
  C4. The backward rule of \<open>stack(a, b, axis=k)\<close> should give \<open>a\<close> the slice of the
  upstream gradient at index 0 along axis \<open>k\<close> and \<open>b\<close> the slice at index 1. The
  code takes \<open>out.grad[0]\<close> and \<open>out.grad[1]\<close>, slices along axis 0, whatever \<open>k\<close> is.
  For \<open>a = [1,2]\<close>, \<open>b = [3,4]\<close>, \<open>out = a.stack(b, axis=1) = [[1,3],[2,4]]\<close> and
  \<open>z = out * [[10,20],[30,40]]\<close>, \<open>z.backward()\<close> makes the upstream gradient of \<open>out\<close>
  \<open>[[10,20],[30,40]]\<close>; its slices along axis 1 are \<open>[10,30]\<close> and \<open>[20,40]\<close>, and the
  code adds \<open>[10,20]\<close> to \<open>a.grad\<close> and \<open>[30,40]\<close> to \<open>b.grad\<close>.
\<close>

theorem stack_backward_slices_axis_0:
  "bind (stack
       (fst (Tensor (fst (Tensor [] \<lparr>shape = [2], elems = [1, 2]\<rparr> [] (Tag []) [] True False))
          \<lparr>shape = [2], elems = [3, 4]\<rparr> [] (Tag []) [] True False))
       0 (TensorRef 1) 1)
     (\<lambda>(s, out).
        bind (mul s out (Array \<lparr>shape = [2, 2], elems = [10, 20, 30, 40]\<rparr>)) (\<lambda>(s, z).
        bind (backward (Suc (Suc (Suc depth))) s z) (\<lambda>s'.
          Returns (data (s ! out), grad (s' ! out), grad (s' ! 0), grad (s' ! 1)))))
   = Returns (\<lparr>shape = [2, 2], elems = [1, 3, 2, 4]\<rparr>,
       GradArray \<lparr>shape = [2, 2], elems = [10, 20, 30, 40]\<rparr>,
       GradArray \<lparr>shape = [2], elems = [10, 20]\<rparr>,
       GradArray \<lparr>shape = [2], elems = [30, 40]\<rparr>)"
  by (simp add: array_eval tensor_eval)

text \<open>
  C5. The backward rule of \<open>sum(axis)\<close> should broadcast the upstream gradient back
  to the shape of the operand for every valid axis, the trailing axis of a 2-D
  tensor included. The code adds \<open>out.grad\<close> as it is: for \<open>x\<close> of shape \<open>(2,3)\<close> and
  \<open>y = x.sum(axis=1)\<close>, \<open>y.backward()\<close> adds an array of shape \<open>(2)\<close> to one of shape
  \<open>(2,3)\<close> and numpy raises ValueError.
\<close>

theorem sum_backward_trailing_axis_raises:
  "bind (sum_t (fst (Tensor [] \<lparr>shape = [2, 3], elems = [1, 2, 3, 4, 5, 6]\<rparr> [] (Tag []) []
                       True False)) 0 (AxisInt 1))
     (\<lambda>(s, y). backward (Suc (Suc depth)) s y) = Raises ValueError"
  by (simp add: array_eval tensor_eval)

text \<open>
  C6. \<open>step\<close> should apply exactly one update \<open>value -= gradient * learning_rate\<close>
  to each trainable node, the root included. The code walks \<open>[self]\<close> extended by
  the traversal, which ends with \<open>self\<close> again, so a trainable root is updated twice:
  for \<open>x = Tensor(1.0, req_grad=True)\<close>, after \<open>x.backward()\<close> the gradient is 1 and
  \<open>x.step(0.1)\<close> leaves the value 0.8, not 0.9.
\<close>

theorem step_updates_root_twice:
  "bind (backward (Suc depth) (fst (Tensor [] (scalar 1) [] (Tag []) [] True False)) 0)
     (\<lambda>s. bind (step (Suc depth) s 0 (1 / 10)) (\<lambda>s'. Returns (grad (s ! 0), data (s' ! 0))))
   = Returns (GradArray (scalar 1), scalar (4 / 5))"
  by (simp add: array_eval tensor_eval)

text \<open>
  C7. \<open>c ** a\<close> for a plain number \<open>c\<close> and a Tensor \<open>a\<close> should return a node holding
  \<open>c\<close> raised to the value of \<open>a\<close>. The code's \<open>__rpow__\<close> evaluates \<open>other**self\<close>,
  which Python dispatches to \<open>__rpow__\<close> again; whatever depth of stack is left, the
  call ends in RecursionError and returns no node.
\<close>

theorem rpow_never_returns:
  "rpow depth s self other = Raises RecursionError"
  by (induction depth) simp_all

text \<open>
  C8. When one node is both operands of a binary operation, the parents of the
  result are that one node and backward adds both contributions into it. For a
  Tensor \<open>x\<close> built from any array \<open>a\<close>, in any heap: after \<open>y = x + x\<close> and
  \<open>y.backward()\<close> every entry of \<open>x.grad\<close> is 2 (1 + 1), and after \<open>y = x * x\<close>
  and \<open>y.backward()\<close> the gradient is \<open>2 * a\<close> entry by entry (\<open>a + a\<close>). An array
  is well formed when it has as many elements as its shape has positions.
\<close>

theorem diamond_accumulation:
  assumes "well_formed a"
  shows "bind (add (fst (Tensor s a [] tag lbl rg w)) (length s) (TensorRef (length s)))
     (\<lambda>(s1, y). bind (backward (Suc (Suc depth)) s1 y) (\<lambda>s'.
        Returns (prev (s1 ! y), grad (s' ! length s))))
   = Returns ([length s], GradArray (tabulate (shape a) (\<lambda>_. 2)))
   \<and> bind (mul (fst (Tensor s a [] tag lbl rg w)) (length s) (TensorRef (length s)))
     (\<lambda>(s1, y). bind (backward (Suc (Suc depth)) s1 y) (\<lambda>s'.
        Returns (prev (s1 ! y), grad (s' ! length s))))
   = Returns ([length s], GradArray (np_map (\<lambda>v. 2 * v) a))"
  using assms by (simp add: tensor_eval same_shape_eval nth_append list_update_append)

text \<open>
  The theorem for C8 at the two examples: \<open>x = Tensor(3.0, req_grad=True)\<close> with
  \<open>y = x + x\<close> gives \<open>x.grad = 2\<close>, and \<open>x = Tensor(2.0, req_grad=True)\<close> with
  \<open>y = x * x\<close> gives \<open>x.grad = 4\<close>.
\<close>

theorem diamond_accumulation_witness:
  "well_formed (scalar 3) \<and> well_formed (scalar 2)
   \<and> bind (add (fst (Tensor [] (scalar 3) [] (Tag []) [] True False)) 0 (TensorRef 0))
     (\<lambda>(s1, y). bind (backward (Suc (Suc 0)) s1 y) (\<lambda>s'.
        Returns (prev (s1 ! y), grad (s' ! 0))))
   = Returns ([0], GradArray (scalar 2))
   \<and> bind (mul (fst (Tensor [] (scalar 2) [] (Tag []) [] True False)) 0 (TensorRef 0))
     (\<lambda>(s1, y). bind (backward (Suc (Suc 0)) s1 y) (\<lambda>s'.
        Returns (prev (s1 ! y), grad (s' ! 0))))
   = Returns ([0], GradArray (scalar 4))"
proof -
  have w3: "well_formed (scalar 3)" and w2: "well_formed (scalar 2)"
    by (simp_all add: well_formed_def scalar_def)
  have "tabulate (shape (scalar 3)) (\<lambda>_. 2) = scalar 2"
    and "np_map (\<lambda>v. 2 * v) (scalar 2) = scalar 4"
    by (simp_all add: tabulate_def scalar_def np_map_def)
  with diamond_accumulation[OF w3, of "[]" "Tag []" "[]" True False 0]
    diamond_accumulation[OF w2, of "[]" "Tag []" "[]" True False 0] w3 w2
  show ?thesis by simp
qed

text \<open>
  C9. \<open>power\<close> should raise at call time whenever the exponent is not a plain
  numeric scalar, \<open>cross_entropy_loss\<close> whenever the target is not a 1-D index
  array, and otherwise neither raises that error. The guard of \<open>cross_entropy_loss\<close>
  is \<open>isinstance(target, np.ndarray) and len(target.shape) == 1\<close>: it lets a 1-D
  array of floats through, which is no index array; numpy then raises IndexError
  at the indexing, not the assertion's error.
\<close>

theorem float_target_passes_guard:
  "\<not> spec_1d_index_array (Array \<lparr>shape = [1], elems = [1 / 2]\<rparr>)
   \<and> cross_entropy_loss
        (fst (Tensor [] \<lparr>shape = [1, 2], elems = [0, 0]\<rparr> [] (Tag []) [] True False)) 0
        (Array \<lparr>shape = [1], elems = [1 / 2]\<rparr>) = Raises IndexError"
  by (simp add: array_eval tensor_eval)

text \<open>
  C9, as the code has it: \<open>power\<close> raises the assertion's error exactly when the
  exponent is not an \<open>int\<close> or a \<open>float\<close> (a \<open>bool\<close> is an \<open>int\<close>), and
  \<open>cross_entropy_loss\<close> raises it exactly when the target is not a one-dimensional
  numpy array, of whatever element type. A call that raises returns no heap: no
  node was built.
\<close>

theorem invalid_argument_guards:
  "((pow s self other = Raises AssertionError) = (\<not> isinstance_int_float other))
   \<and> ((cross_entropy_loss s self target = Raises AssertionError) = (\<not> is_1d_ndarray target))"
  by (simp add: pow_assert cross_entropy_assert)




end
